theory Spec2Isabelle
  imports Complex_Main
begin

section \<open>Python values shared by both modules\<close>

text \<open>
  Python floats are modelled as real numbers with exact arithmetic; the one non-finite
  float the source itself writes is \<^verbatim>\<open>float('-inf')\<close>, the default of
  \<^verbatim>\<open>Benchmark.throughput\<close>. Rounding, overflow and NaN are outside the model.
\<close>

datatype pyfloat = NegInf | Fin real

text \<open>The exceptions that \<^verbatim>\<open>benchmark/base.py\<close> raises, with their message.\<close>

datatype py_error = ValueError string | ZeroDivisionError | AssertionError string

text \<open>A call either returns a value or raises.\<close>

datatype ('a, 'e) outcome = Returns 'a | Raises 'e

text \<open>
  Python's true division \<^verbatim>\<open>a / b\<close> on numbers raises ZeroDivisionError when
  \<^verbatim>\<open>b\<close> is zero (for ints and floats alike); HOL's \<open>a / 0\<close> would be \<open>0\<close>.
\<close>

definition py_truediv :: "real \<Rightarrow> real \<Rightarrow> py_error + real" where
  "py_truediv a b = (if b = 0 then Inl ZeroDivisionError else Inr (a / b))"

text \<open>Decimal rendering of a Python int, as \<^verbatim>\<open>str\<close> and f-strings produce it.\<close>

fun show_nat :: "nat \<Rightarrow> string" where
  "show_nat n =
     (if n < 10 then [''0123456789'' ! n]
      else show_nat (n div 10) @ [''0123456789'' ! (n mod 10)])"

definition show_int :: "int \<Rightarrow> string" where
  "show_int i = (if i < 0 then ''-'' @ show_nat (nat (- i)) else show_nat (nat i))"

section \<open>The measurement session: \<^verbatim>\<open>src/benchmark/base.py\<close>\<close>

text \<open>
  \<^verbatim>\<open>
  @dataclass
  class Benchmark:
      latencies: List[float] = field(default_factory=list)
      throughput: Optional[float] = float('-inf')
  \<close>
  No method of the class ever stores \<^verbatim>\<open>None\<close> in \<^verbatim>\<open>throughput\<close>: the default is
  \<^verbatim>\<open>-inf\<close>, and \<^verbatim>\<open>finalize\<close> and \<^verbatim>\<open>merge\<close> store the result of a division.
\<close>

record Benchmark =
  latencies :: "real list"
  throughput :: pyfloat

definition Benchmark_default :: Benchmark where
  "Benchmark_default = \<lparr>latencies = [], throughput = NegInf\<rparr>"

definition num_runs :: "Benchmark \<Rightarrow> nat" where
  "num_runs b = length (latencies b)"

definition runs_duration :: "Benchmark \<Rightarrow> real" where
  "runs_duration b = sum_list (latencies b)"

text \<open>
  \<^verbatim>\<open>perfs\<close> builds a one-row table from \<^verbatim>\<open>runs_duration / num_runs\<close> and the
  throughput; the row is a record here. The division is not guarded in the source.
\<close>

record perfs_row =
  mean_latency :: real
  row_throughput :: pyfloat

definition perfs :: "Benchmark \<Rightarrow> py_error + perfs_row" where
  "perfs b =
     (case py_truediv (runs_duration b) (real (num_runs b)) of
        Inl e \<Rightarrow> Inl e
      | Inr m \<Rightarrow> Inr \<lparr>mean_latency = m, row_throughput = throughput b\<rparr>)"

text \<open>
  \<^verbatim>\<open>track\<close> is a generator-based context manager. The readings of the timers are
  inputs: \<open>start_ns\<close> and \<open>end_ns\<close> are the two results of \<^verbatim>\<open>time.perf_counter_ns()\<close>,
  \<open>elapsed_ms\<close> is \<^verbatim>\<open>start_event.elapsed_time(end_event)\<close>. The body of the
  \<^verbatim>\<open>with\<close> block is the unit of work; it runs at the \<^verbatim>\<open>yield\<close>. When it raises,
  the exception is thrown into the generator at the \<^verbatim>\<open>yield\<close>; the generator has no
  handler there, so nothing after the \<^verbatim>\<open>yield\<close> runs and the exception leaves the
  \<^verbatim>\<open>with\<close> statement. For a device that is neither \<^verbatim>\<open>"cpu"\<close> nor \<^verbatim>\<open>"cuda"\<close> the
  generator raises before it yields, so the body never runs.
\<close>

record timer =
  start_ns :: int
  end_ns :: int
  elapsed_ms :: real

datatype 'e scope_exit = Normal | Propagated 'e | Track_raised py_error

definition track ::
  "Benchmark \<Rightarrow> string \<Rightarrow> timer \<Rightarrow> (unit, 'e) outcome \<Rightarrow> 'e scope_exit \<times> Benchmark" where
  "track b device t body =
     (if device = ''cpu'' then
        (case body of
           Raises e \<Rightarrow> (Propagated e, b)
         | Returns _ \<Rightarrow>
             (let latency_ns = end_ns t - start_ns t;
                  latency = real_of_int latency_ns / 10 ^ 9
              in (Normal, b\<lparr>latencies := latencies b @ [latency]\<rparr>)))
      else if device = ''cuda'' then
        (case body of
           Raises e \<Rightarrow> (Propagated e, b)
         | Returns _ \<Rightarrow>
             (let latency_ms = elapsed_ms t;
                  latency = latency_ms / 10 ^ 3
              in (Normal, b\<lparr>latencies := latencies b @ [latency]\<rparr>)))
      else (Track_raised (ValueError (''Unsupported device type '' @ device)), b))"

text \<open>\<^verbatim>\<open>self.throughput = self.num_runs / benchmark_duration\<close>, with no check before it.\<close>

definition finalize :: "Benchmark \<Rightarrow> real \<Rightarrow> py_error + Benchmark" where
  "finalize b benchmark_duration =
     (case py_truediv (real (num_runs b)) benchmark_duration of
        Inl e \<Rightarrow> Inl e
      | Inr t \<Rightarrow> Inr (b\<lparr>throughput := Fin t\<rparr>))"

text \<open>
  The loop of \<^verbatim>\<open>merge\<close>, with the two accumulators \<^verbatim>\<open>latencies\<close> and
  \<^verbatim>\<open>throughputs\<close>. \<^verbatim>\<open>b.throughput > 0.\<close> is false for \<^verbatim>\<open>-inf\<close>, so a throughput
  that is appended is a finite positive number. The second assertion message
  interpolates the throughput; \<open>fmt\<close> stands for Python's rendering of a finite float.
  The assertions are executed (the interpreter does not run with \<^verbatim>\<open>-O\<close>).
\<close>

definition str_float :: "(real \<Rightarrow> string) \<Rightarrow> pyfloat \<Rightarrow> string" where
  "str_float fmt x = (case x of NegInf \<Rightarrow> ''-inf'' | Fin r \<Rightarrow> fmt r)"

definition not_finalized :: "(real \<Rightarrow> string) \<Rightarrow> pyfloat \<Rightarrow> py_error" where
  "not_finalized fmt x =
     AssertionError (''Benchmark has not been finalized, throughput < 0 ('' @ str_float fmt x @ '')'')"

fun merge_loop ::
  "(real \<Rightarrow> string) \<Rightarrow> Benchmark list \<Rightarrow> real list \<Rightarrow> real list \<Rightarrow> py_error + (real list \<times> real list)" where
  "merge_loop fmt [] lats thrs = Inr (lats, thrs)"
| "merge_loop fmt (b # bs) lats thrs =
     (if \<not> length (latencies b) > 0 then
        Inl (AssertionError ''Empty benchmark (0 latency measurements recorded)'')
      else
        (case throughput b of
           NegInf \<Rightarrow> Inl (not_finalized fmt (throughput b))
         | Fin t \<Rightarrow>
             if \<not> t > 0 then Inl (not_finalized fmt (throughput b))
             else merge_loop fmt bs (lats @ latencies b) (thrs @ [t])))"

definition merge :: "(real \<Rightarrow> string) \<Rightarrow> Benchmark list \<Rightarrow> py_error + Benchmark" where
  "merge fmt benchmarks =
     (case merge_loop fmt benchmarks [] [] of
        Inl e \<Rightarrow> Inl e
      | Inr (lats, thrs) \<Rightarrow>
          (case py_truediv (sum_list thrs) (real (length thrs)) of
             Inl e \<Rightarrow> Inl e
           | Inr mean_throughput \<Rightarrow> Inr \<lparr>latencies = lats, throughput = Fin mean_throughput\<rparr>))"

section \<open>The isolated process: \<^verbatim>\<open>launchers/process/launcher.py\<close>\<close>

text \<open>
  What the parent puts on the pipe is any picklable value; the model has the scalars
  \<^verbatim>\<open>None\<close>, ints and strings. \<open>py_str\<close> is what an f-string renders for them.
\<close>

datatype pyval = PNone | PInt int | PStr string

definition py_str :: "pyval \<Rightarrow> string" where
  "py_str v = (case v of PNone \<Rightarrow> ''None'' | PInt i \<Rightarrow> show_int i | PStr s \<Rightarrow> s)"

text \<open>
  What the child puts on the pipe is a dict with string keys, an association list here
  (\<^verbatim>\<open>k in d\<close> is \<open>map_of d k \<noteq> None\<close>, \<^verbatim>\<open>d[k]\<close> the value found). A value is a
  text or the mapping form of a report; \<open>'d\<close> is the type of that mapping form, which
  \<^verbatim>\<open>BenchmarkReport.to_dict\<close> produces and \<^verbatim>\<open>BenchmarkReport.from_dict\<close> reads
  (both live in the \<^verbatim>\<open>report\<close> module and are parameters of the model).
\<close>

datatype 'd field = Text string | Payload 'd

type_synonym 'd message = "(string \<times> 'd field) list"

subsection \<open>The child: \<^verbatim>\<open>target\<close>\<close>

text \<open>
  The exception a worker raises: whether it is an instance of \<^verbatim>\<open>Exception\<close> (the only
  class the handler of \<^verbatim>\<open>target\<close> names), its message \<^verbatim>\<open>str(e)\<close>, and the text that
  \<^verbatim>\<open>traceback.format_exc()\<close> returns while it is handled.
\<close>

record exc =
  is_Exception :: bool
  str_exc :: string
  format_exc :: string

text \<open>
  The first loop of \<^verbatim>\<open>target\<close>. The first argument is what the parent sends, in order;
  an iteration whose \<^verbatim>\<open>poll()\<close> is false changes nothing. Once that input is used up
  \<^verbatim>\<open>poll()\<close> stays false and the loop never leaves: this is \<open>Waiting\<close>, with the
  messages sent so far. \<open>Started\<close> is the \<^verbatim>\<open>break\<close>.
\<close>

datatype 'd awaited = Started "pyval list" "'d message list" | Waiting "'d message list"

definition unexpected :: "pyval \<Rightarrow> 'd message" where
  "unexpected response =
     [(''exception'', Text (''Isolated process received an unexpected response: '' @ py_str response))]"

fun await_start :: "pyval list \<Rightarrow> 'd message list \<Rightarrow> 'd awaited" where
  "await_start [] out = Waiting out"
| "await_start (response # rest) out =
     (if response = PStr ''start'' then Started rest out
      else await_start rest (out @ [unexpected response]))"

text \<open>
  What a run of \<^verbatim>\<open>target\<close> leaves behind: the messages sent on the child's end of the
  pipe, whether the worker was called, whether \<^verbatim>\<open>connection.close()\<close> ran, and the exit
  code of the process (\<open>None\<close>: the process never exits). After the loop:
  \<^verbatim>\<open>
  try:
      report = worker(*worker_args)
  except Exception:
      connection.send({"traceback": traceback.format_exc()})
  else:
      connection.send({"report": report.to_dict()})
  finally:
      connection.close()
      exit(0)
  \<close>
  An exception that is not an instance of \<^verbatim>\<open>Exception\<close> reaches neither the handler nor
  the \<^verbatim>\<open>else\<close> branch; the \<^verbatim>\<open>finally\<close> block runs and its \<^verbatim>\<open>exit(0)\<close> replaces it.
\<close>

record 'd child =
  sent :: "'d message list"
  worker_called :: bool
  connection_closed :: bool
  exitcode :: "int option"

definition target ::
  "('a \<Rightarrow> ('r, exc) outcome) \<Rightarrow> 'a \<Rightarrow> ('r \<Rightarrow> 'd) \<Rightarrow> pyval list \<Rightarrow> 'd child" where
  "target worker worker_args to_dict connection =
     (case await_start connection [] of
        Waiting out \<Rightarrow>
          \<lparr>sent = out, worker_called = False, connection_closed = False, exitcode = None\<rparr>
      | Started _ out \<Rightarrow>
          (case worker worker_args of
             Raises e \<Rightarrow>
               if is_Exception e then
                 \<lparr>sent = out @ [[(''traceback'', Text (format_exc e))]],
                  worker_called = True, connection_closed = True, exitcode = Some 0\<rparr>
               else
                 \<lparr>sent = out, worker_called = True, connection_closed = True, exitcode = Some 0\<rparr>
           | Returns report \<Rightarrow>
               \<lparr>sent = out @ [[(''report'', Payload (to_dict report))]],
                worker_called = True, connection_closed = True, exitcode = Some 0\<rparr>))"

subsection \<open>The parent: \<^verbatim>\<open>ProcessLauncher.launch\<close> after the join\<close>

text \<open>
  The process is the environment of \<^verbatim>\<open>launch\<close>: \<open>code\<close> is
  \<^verbatim>\<open>isolated_process.exitcode\<close> after \<^verbatim>\<open>join()\<close> and \<open>parent_connection\<close> is what can be
  read on the parent's end of the pipe, oldest first (\<^verbatim>\<open>poll()\<close> is true when it is not
  empty, \<^verbatim>\<open>recv()\<close> takes the first). \<open>fmt\<close> is Python's rendering of a dict in the last
  message.
\<close>

datatype 'd launch_error = RuntimeError string | ChildProcessError "'d field"

definition launch ::
  "('d field \<Rightarrow> 'r) \<Rightarrow> ('d message \<Rightarrow> string) \<Rightarrow> int \<Rightarrow> 'd message list \<Rightarrow> 'd launch_error + 'r" where
  "launch from_dict fmt code parent_connection =
     (if code \<noteq> 0 then
        Inl (RuntimeError (''Isolated process exited with non-zero code '' @ show_int code))
      else
        (case parent_connection of
           [] \<Rightarrow> Inl (RuntimeError ''Isolated process did not send any response'')
         | response # _ \<Rightarrow>
             (case map_of response ''traceback'' of
                Some t \<Rightarrow> Inl (ChildProcessError t)
              | None \<Rightarrow>
                  (case map_of response ''exception'' of
                     Some e \<Rightarrow> Inl (ChildProcessError e)
                   | None \<Rightarrow>
                       (case map_of response ''report'' of
                          Some r \<Rightarrow> Inr (from_dict r)
                        | None \<Rightarrow>
                            Inl (RuntimeError
                              (''Received an unexpected response from isolated process: '' @ fmt response)))))))"

text \<open>
  Concrete inputs used in the examples below. \<open>plain_float\<close> and \<open>show_keys\<close> are
  stand-ins for Python's rendering of a float and of a dict, for the examples only.
\<close>

definition bad_input :: exc where
  "bad_input =
     \<lparr>is_Exception = True, str_exc = ''bad input'',
      format_exc = ''Traceback (most recent call last): ValueError: bad input''\<rparr>"

definition failing_worker :: "unit \<Rightarrow> (string, exc) outcome" where
  "failing_worker args = Raises bad_input"

definition ok_worker :: "unit \<Rightarrow> (string, exc) outcome" where
  "ok_worker args = Returns ''ok''"

definition plain_float :: "real \<Rightarrow> string" where
  "plain_float r = ''?''"

definition show_keys :: "'d message \<Rightarrow> string" where
  "show_keys response = concat (map fst response)"

declare show_nat.simps [simp del]

section \<open>Properties of the measurement session\<close>

text \<open>
  C3. For the two supported device kinds, a scope whose unit of work completes appends
  exactly one sample to the latencies (the elapsed counter time in seconds for
  \<^verbatim>\<open>"cpu"\<close>, the elapsed event time in seconds for \<^verbatim>\<open>"cuda"\<close>) and changes nothing else;
  when the unit raises, the benchmark is left as it was and the same error leaves the scope.
\<close>

theorem track_appends_or_propagates:
  fixes e :: 'e
  assumes "device = ''cpu'' \<or> device = ''cuda''"
  shows "track b device t (Returns () :: (unit, 'e) outcome) =
           (Normal, b\<lparr>latencies := latencies b @
              [if device = ''cpu'' then real_of_int (end_ns t - start_ns t) / 10 ^ 9
               else elapsed_ms t / 10 ^ 3]\<rparr>)
       \<and> num_runs (snd (track b device t (Returns () :: (unit, 'e) outcome))) = Suc (num_runs b)
       \<and> track b device t (Raises e) = (Propagated e, b)"
  using assms by (elim disjE) (simp_all add: track_def Let_def num_runs_def)

theorem track_appends_or_propagates_witness:
  "track Benchmark_default ''cpu'' \<lparr>start_ns = 5, end_ns = 2000000005, elapsed_ms = 0\<rparr> (Returns () :: (unit, string) outcome)
     = (Normal, \<lparr>latencies = [2], throughput = NegInf\<rparr>)
   \<and> track Benchmark_default ''cpu'' \<lparr>start_ns = 5, end_ns = 2000000005, elapsed_ms = 0\<rparr> (Raises ''boom'')
       = (Propagated ''boom'', Benchmark_default)"
  using track_appends_or_propagates [of "''cpu''" Benchmark_default "\<lparr>start_ns = 5, end_ns = 2000000005, elapsed_ms = 0\<rparr>" "''boom''"]
  by (simp add: Benchmark_default_def)

text \<open>
  C4, as the spec states it, does not hold: \<^verbatim>\<open>finalize\<close> has no guard. On a benchmark
  without samples and a duration of 1 it succeeds and stores the throughput 0; on a
  negative duration it succeeds and stores a negative throughput.
\<close>

theorem finalize_unchecked_counterexample:
  "finalize Benchmark_default 1 = Inr \<lparr>latencies = [], throughput = Fin 0\<rparr>
   \<and> finalize \<lparr>latencies = [1], throughput = NegInf\<rparr> (- 2) = Inr \<lparr>latencies = [1], throughput = Fin (- (1 / 2))\<rparr>"
  by (simp add: finalize_def py_truediv_def num_runs_def Benchmark_default_def)

text \<open>
  C4, amended. \<^verbatim>\<open>finalize(d)\<close> fails exactly when \<open>d = 0\<close>, with the ZeroDivisionError
  of the division itself, so a division by zero is never silently produced; for every
  other duration, whatever the number of samples, it stores \<open>num_runs / d\<close>.
\<close>

theorem finalize_fails_only_on_zero_duration:
  "(finalize b d = Inl ZeroDivisionError \<longleftrightarrow> d = 0)
   \<and> (d \<noteq> 0 \<longrightarrow> finalize b d = Inr (b\<lparr>throughput := Fin (real (num_runs b) / d)\<rparr>))"
  by (simp add: finalize_def py_truediv_def)

theorem finalize_fails_only_on_zero_duration_witness:
  "finalize Benchmark_default 0 = Inl ZeroDivisionError
   \<and> finalize Benchmark_default 4 = Inr \<lparr>latencies = [], throughput = Fin 0\<rparr>"
  using finalize_fails_only_on_zero_duration [of Benchmark_default 0]
    finalize_fails_only_on_zero_duration [of Benchmark_default 4]
  by (simp add: Benchmark_default_def num_runs_def)

text \<open>The loop of \<^verbatim>\<open>merge\<close> on inputs that pass both assertions, and on a list with one that does not.\<close>

lemma merge_loop_ok:
  "map throughput bs = map Fin ts \<Longrightarrow> \<forall>t\<in>set ts. 0 < t \<Longrightarrow> \<forall>b\<in>set bs. latencies b \<noteq> [] \<Longrightarrow>
   merge_loop fmt bs lats thrs = Inr (lats @ concat (map latencies bs), thrs @ ts)"
proof (induction bs arbitrary: lats thrs ts)
  case Nil
  then show ?case by simp
next
  case (Cons b bs)
  from Cons.prems(1) obtain t ts' where ts: "ts = t # ts'" and tb: "throughput b = Fin t"
    and rest: "map throughput bs = map Fin ts'"
    by (cases ts) auto
  from Cons.prems(2) ts have pos: "0 < t" and pos': "\<forall>t\<in>set ts'. 0 < t" by auto
  from Cons.prems(3) have ne: "latencies b \<noteq> []" and ne': "\<forall>b\<in>set bs. latencies b \<noteq> []" by auto
  have "merge_loop fmt (b # bs) lats thrs = merge_loop fmt bs (lats @ latencies b) (thrs @ [t])"
    using tb pos ne by simp
  also have "\<dots> = Inr ((lats @ latencies b) @ concat (map latencies bs), (thrs @ [t]) @ ts')"
    by (rule Cons.IH [OF rest pos' ne'])
  finally show ?case using ts by simp
qed

lemma merge_loop_bad:
  "\<exists>b\<in>set bs. latencies b = [] \<or> (\<forall>t. throughput b = Fin t \<longrightarrow> t \<le> 0) \<Longrightarrow>
   \<exists>msg. merge_loop fmt bs lats thrs = Inl (AssertionError msg)"
proof (induction bs arbitrary: lats thrs)
  case Nil
  then show ?case by simp
next
  case (Cons b bs)
  show ?case
  proof (cases "latencies b = [] \<or> (\<forall>t. throughput b = Fin t \<longrightarrow> t \<le> 0)")
    case True
    then show ?thesis
      by (cases "throughput b") (auto simp: not_finalized_def)
  next
    case False
    then obtain t where t: "throughput b = Fin t" "0 < t" and ne: "latencies b \<noteq> []"
      by (cases "throughput b") (auto simp: not_le)
    from Cons.prems False have "\<exists>b\<in>set bs. latencies b = [] \<or> (\<forall>t. throughput b = Fin t \<longrightarrow> t \<le> 0)"
      by auto
    from Cons.IH [OF this] show ?thesis using t ne by simp
  qed
qed

text \<open>
  C5. On a non-empty list of benchmarks that each have a sample and a positive
  throughput (\<open>ts\<close> lists those throughputs), \<^verbatim>\<open>merge\<close> returns the latencies of the
  inputs concatenated in input order and the unweighted mean of the throughputs.
\<close>

theorem merge_concatenates_and_averages:
  assumes "benchmarks \<noteq> []"
    and "\<forall>b\<in>set benchmarks. latencies b \<noteq> []"
    and "map throughput benchmarks = map Fin ts"
    and "\<forall>t\<in>set ts. 0 < t"
  shows "merge fmt benchmarks =
           Inr \<lparr>latencies = concat (map latencies benchmarks),
                throughput = Fin (sum_list ts / real (length ts))\<rparr>"
proof -
  have len: "length ts = length benchmarks"
    using assms(3) by (metis length_map)
  with assms(1) have "real (length ts) \<noteq> 0" by simp
  moreover have "merge_loop fmt benchmarks [] [] = Inr (concat (map latencies benchmarks), ts)"
    using merge_loop_ok [OF assms(3) assms(4) assms(2), of fmt "[]" "[]"] by simp
  ultimately show ?thesis by (simp add: merge_def py_truediv_def)
qed

theorem merge_concatenates_and_averages_witness:
  "merge plain_float
     [\<lparr>latencies = [1, 2], throughput = Fin 2\<rparr>,
      \<lparr>latencies = [3], throughput = Fin 4\<rparr>,
      \<lparr>latencies = [5, 8], throughput = Fin 6\<rparr>]
   = Inr \<lparr>latencies = [1, 2, 3, 5, 8], throughput = Fin ((2 + 4 + 6) / 3)\<rparr>"
  using merge_concatenates_and_averages
    [of "[\<lparr>latencies = [1, 2], throughput = Fin 2\<rparr>,
          \<lparr>latencies = [3], throughput = Fin 4\<rparr>,
          \<lparr>latencies = [5, 8], throughput = Fin 6\<rparr>]" "[2, 4, 6]" plain_float]
  by simp

text \<open>
  C6. \<^verbatim>\<open>merge([])\<close> fails: the mean over no throughputs divides by zero and Python
  raises ZeroDivisionError (the spec's EmptyMerge). A list that contains a benchmark
  without samples, or whose throughput is not a positive number (the default
  \<^verbatim>\<open>-inf\<close> of a benchmark that was never finalized included), fails with the
  AssertionError of one of the two assertions of the loop (the spec's UnfinalizedMerge).
\<close>

theorem merge_rejects:
  "merge fmt [] = Inl ZeroDivisionError \<and>
   ((\<exists>b\<in>set benchmarks. latencies b = [] \<or> (\<forall>t. throughput b = Fin t \<longrightarrow> t \<le> 0)) \<longrightarrow>
    (\<exists>msg. merge fmt benchmarks = Inl (AssertionError msg)))"
proof (intro conjI impI)
  show "merge fmt [] = Inl ZeroDivisionError"
    by (simp add: merge_def py_truediv_def)
next
  assume "\<exists>b\<in>set benchmarks. latencies b = [] \<or> (\<forall>t. throughput b = Fin t \<longrightarrow> t \<le> 0)"
  from merge_loop_bad [OF this, of fmt "[]" "[]"]
  show "\<exists>msg. merge fmt benchmarks = Inl (AssertionError msg)"
    by (auto simp: merge_def)
qed

theorem merge_rejects_witness:
  "merge plain_float [] = Inl ZeroDivisionError \<and>
   merge plain_float [\<lparr>latencies = [1], throughput = Fin 2\<rparr>, \<lparr>latencies = [3], throughput = NegInf\<rparr>]
     = Inl (AssertionError ''Benchmark has not been finalized, throughput < 0 (-inf)'')"
  using merge_rejects
    [of plain_float "[\<lparr>latencies = [1], throughput = Fin 2\<rparr>, \<lparr>latencies = [3], throughput = NegInf\<rparr>]"]
  by (simp add: merge_def not_finalized_def str_float_def)

text \<open>
  C7. On a benchmark with at least one sample and a duration \<open>d > 0\<close>, \<^verbatim>\<open>finalize\<close>
  succeeds, stores exactly \<open>num_runs / d\<close> and that throughput is positive. The
  instance below is the spec's example: three samples, \<open>d = 2\<close>, throughput \<open>3 / 2\<close>.
\<close>

theorem finalize_throughput:
  assumes "0 < num_runs b" and "0 < d"
  shows "finalize b d = Inr (b\<lparr>throughput := Fin (real (num_runs b) / d)\<rparr>)
       \<and> 0 < real (num_runs b) / d"
  using assms by (simp add: finalize_def py_truediv_def)

theorem finalize_throughput_witness:
  "finalize \<lparr>latencies = [1 / 10, 2 / 10, 2 / 10], throughput = NegInf\<rparr> 2
     = Inr \<lparr>latencies = [1 / 10, 2 / 10, 2 / 10], throughput = Fin (3 / 2)\<rparr>
   \<and> (0::real) < 3 / 2"
  using finalize_throughput [of "\<lparr>latencies = [1 / 10, 2 / 10, 2 / 10], throughput = NegInf\<rparr>" 2]
  by (simp add: num_runs_def)

text \<open>
  C10. \<^verbatim>\<open>perfs\<close> returns a row exactly when the benchmark has a sample, and the row then
  holds \<open>runs_duration / num_runs\<close>; without samples the division is by zero and what
  comes out is Python's ZeroDivisionError, neither a row nor an error of the module's own.
\<close>

theorem perfs_total_iff_samples:
  "((\<exists>row. perfs b = Inr row) \<longleftrightarrow> 0 < num_runs b)
   \<and> (num_runs b = 0 \<longrightarrow> perfs b = Inl ZeroDivisionError)
   \<and> (0 < num_runs b \<longrightarrow>
        perfs b = Inr \<lparr>mean_latency = runs_duration b / real (num_runs b), row_throughput = throughput b\<rparr>)"
  by (auto simp: perfs_def py_truediv_def)

theorem perfs_total_iff_samples_witness:
  "perfs Benchmark_default = Inl ZeroDivisionError
   \<and> perfs \<lparr>latencies = [1, 3], throughput = Fin 2\<rparr> = Inr \<lparr>mean_latency = 2, row_throughput = Fin 2\<rparr>"
  using perfs_total_iff_samples [of Benchmark_default]
    perfs_total_iff_samples [of "\<lparr>latencies = [1, 3], throughput = Fin 2\<rparr>"]
  by (simp add: Benchmark_default_def num_runs_def runs_duration_def)

section \<open>Properties of the isolated process\<close>

text \<open>The first loop of \<^verbatim>\<open>target\<close>, and \<^verbatim>\<open>target\<close>, by whether the start signal ever arrives.\<close>

lemma await_start_started:
  "PStr ''start'' \<in> set conn \<Longrightarrow>
   await_start conn out =
     Started (tl (dropWhile (\<lambda>v. v \<noteq> PStr ''start'') conn))
             (out @ map unexpected (takeWhile (\<lambda>v. v \<noteq> PStr ''start'') conn))"
  by (induction conn arbitrary: out) auto

lemma await_start_waiting:
  "PStr ''start'' \<notin> set conn \<Longrightarrow> await_start conn out = Waiting (out @ map unexpected conn)"
  by (induction conn arbitrary: out) auto

lemma target_started:
  "PStr ''start'' \<in> set connection \<Longrightarrow>
   target worker worker_args to_dict connection =
     (let out = map unexpected (takeWhile (\<lambda>v. v \<noteq> PStr ''start'') connection) in
      case worker worker_args of
        Raises e \<Rightarrow>
          if is_Exception e then
            \<lparr>sent = out @ [[(''traceback'', Text (format_exc e))]],
             worker_called = True, connection_closed = True, exitcode = Some 0\<rparr>
          else \<lparr>sent = out, worker_called = True, connection_closed = True, exitcode = Some 0\<rparr>
      | Returns report \<Rightarrow>
          \<lparr>sent = out @ [[(''report'', Payload (to_dict report))]],
           worker_called = True, connection_closed = True, exitcode = Some 0\<rparr>)"
  by (simp add: target_def Let_def await_start_started [of connection "[]"])

lemma target_waiting:
  "PStr ''start'' \<notin> set connection \<Longrightarrow>
   target worker worker_args to_dict connection =
     \<lparr>sent = map unexpected connection, worker_called = False, connection_closed = False, exitcode = None\<rparr>"
  by (simp add: target_def await_start_waiting [of connection "[]"])

text \<open>
  C1. After the join, \<^verbatim>\<open>launch\<close> decides in this order. A nonzero exit code fails with
  the RuntimeError that carries the code, whatever is on the pipe (a pending report
  included). With exit code 0: an empty pipe fails with the RuntimeError "did not send
  any response"; a first message \<^verbatim>\<open>{"traceback": text}\<close> or \<^verbatim>\<open>{"exception": text}\<close>
  fails with \<^verbatim>\<open>ChildProcessError(text)\<close>; a first message \<^verbatim>\<open>{"report": payload}\<close> returns
  \<^verbatim>\<open>BenchmarkReport.from_dict(payload)\<close>; a first message with none of the three keys
  fails with the RuntimeError "unexpected response".
\<close>

theorem launch_decodes_in_order:
  "(code \<noteq> 0 \<longrightarrow>
      launch from_dict fmt code parent_connection =
        Inl (RuntimeError (''Isolated process exited with non-zero code '' @ show_int code)))
   \<and> launch from_dict fmt 0 [] = Inl (RuntimeError ''Isolated process did not send any response'')
   \<and> launch from_dict fmt 0 ([(''traceback'', Text msg)] # rest) = Inl (ChildProcessError (Text msg))
   \<and> launch from_dict fmt 0 ([(''exception'', Text msg)] # rest) = Inl (ChildProcessError (Text msg))
   \<and> launch from_dict fmt 0 ([(''report'', payload)] # rest) = Inr (from_dict payload)
   \<and> (map_of response ''traceback'' = None \<and> map_of response ''exception'' = None
        \<and> map_of response ''report'' = None \<longrightarrow>
      launch from_dict fmt 0 (response # rest) =
        Inl (RuntimeError (''Received an unexpected response from isolated process: '' @ fmt response)))"
  by (simp add: launch_def)

theorem launch_decodes_in_order_witness:
  "launch id show_keys 137 [[(''report'', Payload ''ok'')]] =
     Inl (RuntimeError ''Isolated process exited with non-zero code 137'')
   \<and> launch id show_keys 0 [[(''report'', Payload ''ok'')]] = Inr (Payload ''ok'')
   \<and> launch id show_keys 0 [[(''status'', Text ''done'' :: string field)]] =
     Inl (RuntimeError ''Received an unexpected response from isolated process: status'')"
  using launch_decodes_in_order [where code = 137 and from_dict = id and fmt = show_keys
       and parent_connection = "[[(''report'', Payload ''ok'')]]"
       and response = "[(''status'', Text ''done'')]" and rest = "[]"
       and msg = "''bad input''" and payload = "Payload ''ok''"]
  by (simp add: show_int_def show_nat.simps show_keys_def)

text \<open>
  C2, as the spec states it, does not hold: \<^verbatim>\<open>target\<close> has one handler,
  \<^verbatim>\<open>except Exception\<close>, and it sends the traceback. A worker that raises an error with
  the message "bad input" makes the child send \<^verbatim>\<open>{"traceback": ...}\<close> with the full
  trace, not \<^verbatim>\<open>{"exception": "bad input"}\<close>.
\<close>

theorem worker_exception_sent_as_exception_counterexample:
  "sent (target failing_worker () id [PStr ''start'']) = [[(''traceback'', Text (format_exc bad_input))]]
   \<and> sent (target failing_worker () id [PStr ''start'']) \<noteq> [[(''exception'', Text (str_exc bad_input))]]"
  by (simp add: target_def failing_worker_def bad_input_def)

text \<open>
  C2, amended. Once started, when the worker raises any instance of \<^verbatim>\<open>Exception\<close>
  (no failure is classified), the child sends, after its answers to what came before
  the start signal, one last message \<^verbatim>\<open>{"traceback": text}\<close> with the full trace; that
  message has no \<^verbatim>\<open>"exception"\<close> key; and \<^verbatim>\<open>launch\<close>, which sends only the start
  signal, surfaces it as \<^verbatim>\<open>ChildProcessError(text)\<close>.
\<close>

theorem worker_exception_sent_as_traceback:
  assumes "PStr ''start'' \<in> set connection"
    and "worker worker_args = Raises e"
    and "is_Exception e"
  shows "sent (target worker worker_args to_dict connection) =
           map unexpected (takeWhile (\<lambda>v. v \<noteq> PStr ''start'') connection)
             @ [[(''traceback'', Text (format_exc e))]]
       \<and> map_of (last (sent (target worker worker_args to_dict connection))) ''exception'' = None
       \<and> launch from_dict fmt 0 (sent (target worker worker_args to_dict [PStr ''start''])) =
           Inl (ChildProcessError (Text (format_exc e)))"
  using assms by (simp add: target_started launch_def)

theorem worker_exception_sent_as_traceback_witness:
  "sent (target failing_worker () id [PStr ''go'', PStr ''start'']) =
     [[(''exception'', Text ''Isolated process received an unexpected response: go'')],
      [(''traceback'', Text ''Traceback (most recent call last): ValueError: bad input'')]]
   \<and> launch id show_keys 0 (sent (target failing_worker () id [PStr ''start''])) =
       Inl (ChildProcessError (Text ''Traceback (most recent call last): ValueError: bad input''))"
  using worker_exception_sent_as_traceback
    [where connection = "[PStr ''go'', PStr ''start'']" and worker = failing_worker
       and worker_args = "()" and e = bad_input and to_dict = id and from_dict = id and fmt = show_keys]
  by (simp add: failing_worker_def bad_input_def unexpected_def py_str_def)

text \<open>
  C8. A run of \<^verbatim>\<open>target\<close> that receives the start signal closes its end of the pipe and
  exits with code 0, whatever the worker does (return, raise an \<^verbatim>\<open>Exception\<close>, raise
  anything else) and so whatever message was sent; and a run that exits at all exits
  with code 0, the pipe closed.
\<close>

theorem target_exits_zero:
  "(PStr ''start'' \<in> set connection \<longrightarrow>
      connection_closed (target worker worker_args to_dict connection)
      \<and> exitcode (target worker worker_args to_dict connection) = Some 0)
   \<and> (exitcode (target worker worker_args to_dict connection) = Some c \<longrightarrow>
      c = 0 \<and> connection_closed (target worker worker_args to_dict connection))"
proof (cases "PStr ''start'' \<in> set connection")
  case True
  then show ?thesis
    by (simp add: target_started Let_def split: outcome.split)
next
  case False
  then show ?thesis by (simp add: target_waiting)
qed

theorem target_exits_zero_witness:
  "connection_closed (target failing_worker () id [PStr ''start''])
   \<and> exitcode (target failing_worker () id [PStr ''start'']) = Some 0
   \<and> exitcode (target ok_worker () id [PStr ''start'']) = Some 0"
  using target_exits_zero [of "[PStr ''start'']" failing_worker "()" id]
    target_exits_zero [of "[PStr ''start'']" ok_worker "()" id]
  by simp

text \<open>
  C9. While it waits for the start signal, the child answers a value that is not
  \<^verbatim>\<open>"start"\<close> with an \<^verbatim>\<open>{"exception": ...}\<close> message that quotes the value, and is back
  at the head of the loop with the rest of the input. Every value that comes before the
  start signal is answered so, in order. The worker is called exactly when the start
  signal is among the received values; when it is not, the child has answered every
  value, has not called the worker, has not closed the pipe and never exits.
\<close>

theorem worker_runs_only_after_start:
  "(response \<noteq> PStr ''start'' \<longrightarrow>
      await_start (response # rest) out = await_start rest (out @ [unexpected response])
      \<and> map_of (unexpected response) ''exception'' =
          Some (Text (''Isolated process received an unexpected response: '' @ py_str response)))
   \<and> (\<exists>later. sent (target worker worker_args to_dict connection) =
        map unexpected (takeWhile (\<lambda>v. v \<noteq> PStr ''start'') connection) @ later)
   \<and> (worker_called (target worker worker_args to_dict connection) \<longleftrightarrow> PStr ''start'' \<in> set connection)
   \<and> (PStr ''start'' \<notin> set connection \<longrightarrow>
        target worker worker_args to_dict connection =
          \<lparr>sent = map unexpected connection, worker_called = False, connection_closed = False, exitcode = None\<rparr>)"
proof -
  have called: "worker_called (target worker worker_args to_dict connection) \<longleftrightarrow> PStr ''start'' \<in> set connection"
  proof (cases "PStr ''start'' \<in> set connection")
    case True
    then show ?thesis by (simp add: target_started Let_def split: outcome.split)
  next
    case False
    then show ?thesis by (simp add: target_waiting)
  qed
  have answered: "\<exists>later. sent (target worker worker_args to_dict connection) =
        map unexpected (takeWhile (\<lambda>v. v \<noteq> PStr ''start'') connection) @ later"
  proof (cases "PStr ''start'' \<in> set connection")
    case True
    then show ?thesis by (simp add: target_started Let_def split: outcome.split)
  next
    case False
    then have tw: "takeWhile (\<lambda>v. v \<noteq> PStr ''start'') connection = connection"
      by (auto simp: takeWhile_eq_all_conv)
    have "sent (target worker worker_args to_dict connection) = map unexpected connection"
      using False by (simp add: target_waiting)
    then have "sent (target worker worker_args to_dict connection) =
        map unexpected (takeWhile (\<lambda>v. v \<noteq> PStr ''start'') connection) @ []"
      by (simp only: tw append_Nil2)
    then show ?thesis by (rule exI)
  qed
  from called answered show ?thesis by (simp add: target_waiting unexpected_def)
qed

theorem worker_runs_only_after_start_witness:
  "await_start [PInt 7, PStr ''start''] ([] :: string message list) = await_start [PStr ''start''] [unexpected (PInt 7)]
   \<and> target ok_worker () id [PInt 7, PNone] =
       \<lparr>sent = [[(''exception'', Text ''Isolated process received an unexpected response: 7'')],
                [(''exception'', Text ''Isolated process received an unexpected response: None'')]],
        worker_called = False, connection_closed = False, exitcode = None\<rparr>"
  using worker_runs_only_after_start
    [where response = "PInt 7" and rest = "[PStr ''start'']" and out = "[] :: string message list"
       and worker = ok_worker and worker_args = "()" and to_dict = id and connection = "[PInt 7, PNone]"]
  by (simp add: unexpected_def py_str_def show_int_def show_nat.simps)

end
